theory Spec2Isabelle
  imports
    Main
    "HOL-Library.Sublist"
    "HOL-Library.Multiset"
    "HOL-Library.List_Lexorder"
    "HOL-Library.Char_ord"
begin

section \<open>Customers: the ORM row and the update schema\<close>

text \<open>
  \<^verbatim>\<open>bigfastapi/models/customer_models.py\<close>. Timestamps (\<^verbatim>\<open>datetime\<close>) are
  natural numbers; \<^verbatim>\<open>datetime.now()\<close> is an argument of the functions that read the
  clock. A column that the source fills from the request may hold \<^verbatim>\<open>None\<close>
  (SQL \<^verbatim>\<open>NULL\<close>), so it is an option; the primary key, the short id, the
  organization id, the flags and the timestamps are always set.
\<close>

type_synonym timestamp = nat

record Customer =
  id' :: string
  customer_id :: string
  organization_id :: string
  email :: "string option"
  first_name :: "string option"
  last_name :: "string option"
  unique_id :: "string option"
  phone_number :: "string option"
  business_name :: "string option"
  location :: "string option"
  gender :: "string option"
  age :: "int option"
  postal_code :: "string option"
  language :: "string option"
  country :: "string option"
  city :: "string option"
  region :: "string option"
  auto_reminder :: bool
  country_code :: "string option"
  is_deleted :: bool
  date_created :: timestamp
  last_updated :: timestamp

text \<open>
  \<^verbatim>\<open>customer_schemas.CustomerUpdate\<close> is not among the source files; its fields are
  the ones \<^verbatim>\<open>put_customer\<close> reads, each optional.
\<close>

record CustomerUpdate =
  first_name :: "string option"
  last_name :: "string option"
  unique_id :: "string option"
  email :: "string option"
  phone_number :: "string option"
  location :: "string option"
  business_name :: "string option"
  gender :: "string option"
  age :: "int option"
  postal_code :: "string option"
  language :: "string option"
  country :: "string option"
  city :: "string option"
  region :: "string option"
  country_code :: "string option"

text \<open>Python truthiness of an optional string and of an optional integer.\<close>

definition truthy_str :: "string option \<Rightarrow> bool" where
  "truthy_str s = (case s of None \<Rightarrow> False | Some v \<Rightarrow> v \<noteq> [])"

definition truthy_int :: "int option \<Rightarrow> bool" where
  "truthy_int n = (case n of None \<Rightarrow> False | Some v \<Rightarrow> v \<noteq> 0)"

text \<open>
  \<^verbatim>\<open>put_customer(customer, customer_instance, db)\<close>: fifteen guarded assignments in
  the source's order, then the timestamp. The instance is the session's only changed
  object, so the commit writes exactly the returned row.
\<close>

definition put_customer :: "timestamp \<Rightarrow> CustomerUpdate \<Rightarrow> Customer \<Rightarrow> Customer" where
  "put_customer now customer customer_instance =
    (let c1 = (if truthy_str (CustomerUpdate.first_name customer)
               then customer_instance\<lparr>Customer.first_name := CustomerUpdate.first_name customer\<rparr>
               else customer_instance);
         c2 = (if truthy_str (CustomerUpdate.last_name customer)
               then c1\<lparr>Customer.last_name := CustomerUpdate.last_name customer\<rparr> else c1);
         c3 = (if truthy_str (CustomerUpdate.unique_id customer)
               then c2\<lparr>Customer.unique_id := CustomerUpdate.unique_id customer\<rparr> else c2);
         c4 = (if truthy_str (CustomerUpdate.email customer)
               then c3\<lparr>Customer.email := CustomerUpdate.email customer\<rparr> else c3);
         c5 = (if truthy_str (CustomerUpdate.phone_number customer)
               then c4\<lparr>Customer.phone_number := CustomerUpdate.phone_number customer\<rparr> else c4);
         c6 = (if truthy_str (CustomerUpdate.location customer)
               then c5\<lparr>Customer.location := CustomerUpdate.location customer\<rparr> else c5);
         c7 = (if truthy_str (CustomerUpdate.business_name customer)
               then c6\<lparr>Customer.business_name := CustomerUpdate.business_name customer\<rparr> else c6);
         c8 = (if truthy_str (CustomerUpdate.gender customer)
               then c7\<lparr>Customer.gender := CustomerUpdate.gender customer\<rparr> else c7);
         c9 = (if truthy_int (CustomerUpdate.age customer)
               then c8\<lparr>Customer.age := CustomerUpdate.age customer\<rparr> else c8);
         c10 = (if truthy_str (CustomerUpdate.postal_code customer)
                then c9\<lparr>Customer.postal_code := CustomerUpdate.postal_code customer\<rparr> else c9);
         c11 = (if truthy_str (CustomerUpdate.language customer)
                then c10\<lparr>Customer.language := CustomerUpdate.language customer\<rparr> else c10);
         c12 = (if truthy_str (CustomerUpdate.country customer)
                then c11\<lparr>Customer.country := CustomerUpdate.country customer\<rparr> else c11);
         c13 = (if truthy_str (CustomerUpdate.city customer)
                then c12\<lparr>Customer.city := CustomerUpdate.city customer\<rparr> else c12);
         c14 = (if truthy_str (CustomerUpdate.region customer)
                then c13\<lparr>Customer.region := CustomerUpdate.region customer\<rparr> else c13);
         c15 = (if truthy_str (CustomerUpdate.country_code customer)
                then c14\<lparr>Customer.region := CustomerUpdate.country_code customer\<rparr> else c14)
     in c15\<lparr>Customer.last_updated := now\<rparr>)"

section \<open>Customer queries\<close>

text \<open>
  The table is the list of its rows in storage order. The database engine is not part of
  the repository; what the queries need of it is written out here.

  \<^verbatim>\<open>column.like(pattern)\<close> is SQL \<^verbatim>\<open>LIKE\<close> without an escape character:
  \<^verbatim>\<open>%\<close> stands for any run of characters, \<^verbatim>\<open>_\<close> for any one character, and
  every other character of the pattern for the characters the engine's collation takes
  for the same. The collation is the argument \<open>collate\<close>, which maps a character to
  the representative it is compared by: the identity for a binary collation (PostgreSQL),
  \<open>ascii_lower\<close> for SQLite, whose \<^verbatim>\<open>LIKE\<close> ignores the case of ASCII letters.
  \<^verbatim>\<open>NULL LIKE pattern\<close> is not true.
\<close>

fun sql_like :: "(char \<Rightarrow> char) \<Rightarrow> string \<Rightarrow> string \<Rightarrow> bool" where
  "sql_like collate [] [] = True"
| "sql_like collate [] (c # s) = False"
| "sql_like collate (p # ps) [] = (p = CHR ''%'' \<and> sql_like collate ps [])"
| "sql_like collate (p # ps) (c # s) =
     (if p = CHR ''%'' then sql_like collate ps (c # s) \<or> sql_like collate (p # ps) s
      else (p = CHR ''_'' \<or> collate p = collate c) \<and> sql_like collate ps s)"

definition like :: "(char \<Rightarrow> char) \<Rightarrow> string option \<Rightarrow> string \<Rightarrow> bool" where
  "like collate col pattern =
     (case col of None \<Rightarrow> False | Some s \<Rightarrow> sql_like collate pattern s)"

text \<open>The upper-case ASCII letters (codes 65 to 90) with bit 5 set, every other character itself.\<close>

definition ascii_lower :: "char \<Rightarrow> char" where
  "ascii_lower c =
     (case c of Char b0 b1 b2 b3 b4 b5 b6 b7 \<Rightarrow>
        if 65 \<le> (of_char c :: nat) \<and> (of_char c :: nat) \<le> 90
        then Char b0 b1 b2 b3 b4 True b6 b7 else c)"

text \<open>
  \<^verbatim>\<open>ORDER BY\<close>: insertion into the sorted rows from the right, so rows the order does
  not tell apart keep their storage order. \<^verbatim>\<open>OFFSET\<close> and \<^verbatim>\<open>LIMIT\<close> are natural
  numbers.
\<close>

fun insort_by :: "('a \<Rightarrow> 'a \<Rightarrow> bool) \<Rightarrow> 'a \<Rightarrow> 'a list \<Rightarrow> 'a list" where
  "insort_by le x [] = [x]"
| "insort_by le x (y # ys) = (if le x y then x # y # ys else y # insort_by le x ys)"

definition order_by :: "('a \<Rightarrow> 'a \<Rightarrow> bool) \<Rightarrow> 'a list \<Rightarrow> 'a list" where
  "order_by le xs = foldr (insort_by le) xs []"

definition offset_limit :: "nat \<Rightarrow> nat \<Rightarrow> 'a list \<Rightarrow> 'a list" where
  "offset_limit offset limit xs = take limit (drop offset xs)"

text \<open>\<^verbatim>\<open>Customer.date_created.desc()\<close>: the later row first.\<close>

definition date_created_desc :: "Customer \<Rightarrow> Customer \<Rightarrow> bool" where
  "date_created_desc a b = (Customer.date_created b \<le> Customer.date_created a)"

text \<open>
  \<^verbatim>\<open>fetch_customers(organization_id, offset, size, db)\<close>. The conversion
  \<^verbatim>\<open>customer_schemas.Customer.from_orm\<close> copies the row's fields (the schema is not
  among the source files), so the result is the list of rows.
\<close>

definition fetch_customers :: "string \<Rightarrow> nat \<Rightarrow> nat \<Rightarrow> Customer list \<Rightarrow> Customer list" where
  "fetch_customers org_id offset size' db =
     offset_limit offset size'
       (order_by date_created_desc
          (filter (\<lambda>c. Customer.is_deleted c = False)
             (filter (\<lambda>c. Customer.organization_id c = org_id) db)))"

text \<open>
  \<^verbatim>\<open>search_customers(organization_id, search_value, offset, size, db)\<close>. The names are
  matched against \<^verbatim>\<open>search_text\<close>, the value between two \<^verbatim>\<open>%\<close>; the ids against
  \<^verbatim>\<open>search_value\<close> itself. (\<^verbatim>\<open>and_\<close> and \<^verbatim>\<open>or_\<close> are Python's
  \<^verbatim>\<open>operator.and_\<close> and \<^verbatim>\<open>operator.or_\<close>, which SQLAlchemy's column expressions
  overload as SQL \<^verbatim>\<open>AND\<close> and \<^verbatim>\<open>OR\<close>.)
\<close>

definition search_customers ::
  "(char \<Rightarrow> char) \<Rightarrow> string \<Rightarrow> string \<Rightarrow> nat \<Rightarrow> nat \<Rightarrow> Customer list \<Rightarrow> Customer list" where
  "search_customers collate org_id search_value offset size' db =
     (let search_text = ''%'' @ search_value @ ''%'';
          customers_by_name =
            offset_limit offset size'
              (order_by date_created_desc
                 (filter (\<lambda>c. like collate (Customer.first_name c) search_text
                               \<or> like collate (Customer.last_name c) search_text)
                    (filter (\<lambda>c. Customer.organization_id c = org_id
                                  \<and> Customer.is_deleted c = False) db)));
          customers_by_id =
            offset_limit offset size'
              (order_by date_created_desc
                 (filter (\<lambda>c. like collate (Customer.unique_id c) search_value
                               \<or> like collate (Some (Customer.customer_id c)) search_value)
                    (filter (\<lambda>c. Customer.organization_id c = org_id
                                  \<and> Customer.is_deleted c = False) db)))
      in customers_by_name @ customers_by_id)"

text \<open>
  The specification's matches, to compare \<^verbatim>\<open>LIKE\<close> with, both under the collation:
  the search text is a contiguous part of the column's value, and the search text is the
  whole of the column's value.
\<close>

definition contains :: "(char \<Rightarrow> char) \<Rightarrow> string option \<Rightarrow> string \<Rightarrow> bool" where
  "contains collate col v =
     (case col of None \<Rightarrow> False | Some s \<Rightarrow> sublist (map collate v) (map collate s))"

definition equals :: "(char \<Rightarrow> char) \<Rightarrow> string option \<Rightarrow> string \<Rightarrow> bool" where
  "equals collate col v =
     (case col of None \<Rightarrow> False | Some s \<Rightarrow> map collate s = map collate v)"

text \<open>
  Column values, for \<^verbatim>\<open>ORDER BY\<close> on a column the caller names. How the engine orders
  them (collation, where \<^verbatim>\<open>NULL\<close> goes) is the argument \<open>le\<close> of
  \<^verbatim>\<open>sort_customers\<close>.
\<close>

datatype val = VNull | VStr string | VInt int | VBool bool | VTime timestamp

definition opt_str :: "string option \<Rightarrow> val" where
  "opt_str s = (case s of None \<Rightarrow> VNull | Some v \<Rightarrow> VStr v)"

definition opt_int :: "int option \<Rightarrow> val" where
  "opt_int n = (case n of None \<Rightarrow> VNull | Some v \<Rightarrow> VInt v)"

text \<open>The mapped columns of class \<^verbatim>\<open>Customer\<close>, by attribute name.\<close>

definition customer_columns :: "(string \<times> (Customer \<Rightarrow> val)) list" where
  "customer_columns =
     [(''id'', \<lambda>c. VStr (Customer.id' c)),
      (''customer_id'', \<lambda>c. VStr (Customer.customer_id c)),
      (''organization_id'', \<lambda>c. VStr (Customer.organization_id c)),
      (''email'', \<lambda>c. opt_str (Customer.email c)),
      (''first_name'', \<lambda>c. opt_str (Customer.first_name c)),
      (''last_name'', \<lambda>c. opt_str (Customer.last_name c)),
      (''unique_id'', \<lambda>c. opt_str (Customer.unique_id c)),
      (''phone_number'', \<lambda>c. opt_str (Customer.phone_number c)),
      (''business_name'', \<lambda>c. opt_str (Customer.business_name c)),
      (''location'', \<lambda>c. opt_str (Customer.location c)),
      (''gender'', \<lambda>c. opt_str (Customer.gender c)),
      (''age'', \<lambda>c. opt_int (Customer.age c)),
      (''postal_code'', \<lambda>c. opt_str (Customer.postal_code c)),
      (''language'', \<lambda>c. opt_str (Customer.language c)),
      (''country'', \<lambda>c. opt_str (Customer.country c)),
      (''city'', \<lambda>c. opt_str (Customer.city c)),
      (''region'', \<lambda>c. opt_str (Customer.region c)),
      (''auto_reminder'', \<lambda>c. VBool (Customer.auto_reminder c)),
      (''country_code'', \<lambda>c. opt_str (Customer.country_code c)),
      (''is_deleted'', \<lambda>c. VBool (Customer.is_deleted c)),
      (''date_created'', \<lambda>c. VTime (Customer.date_created c)),
      (''last_updated'', \<lambda>c. VTime (Customer.last_updated c))]"

text \<open>
  What \<^verbatim>\<open>getattr(Customer, sort_key, "first_name")\<close> can give, by what
  \<^verbatim>\<open>order_by\<close> makes of it: a mapped column; \<^verbatim>\<open>None\<close>, which cancels the
  ordering (and \<^verbatim>\<open>desc(None)\<close> orders by the constant \<^verbatim>\<open>NULL\<close>, which is no
  ordering either); a string, which is read as the label of a selected column and is a
  compile error when no column has that name; and any other object, which is no
  \<^verbatim>\<open>ORDER BY\<close> expression and an argument error.
\<close>

datatype error = Forbidden | NotFound | KeyError | ArgumentError | CompileError

datatype attr = Column "Customer \<Rightarrow> val" | NoneAttr | Label string | Object

text \<open>
  The attributes of the class other than its columns. The class statement gives
  \<^verbatim>\<open>__tablename__\<close> and, having no docstring, a \<^verbatim>\<open>__doc__\<close> that is \<^verbatim>\<open>None\<close>;
  the others come from SQLAlchemy's declarative base (1.4) and from Python's
  \<^verbatim>\<open>object\<close> and \<^verbatim>\<open>type\<close> (3.10).
\<close>

definition other_attributes :: "(string \<times> attr) list" where
  "other_attributes =
     [(''__tablename__'', Label ''customer''),
      (''__doc__'', NoneAttr),
      (''__module__'', Label ''bigfastapi.models.customer_models''),
      (''__name__'', Label ''Customer''),
      (''__qualname__'', Label ''Customer''),
      (''__text_signature__'', NoneAttr),
      (''metadata'', Object), (''registry'', Object), (''__table__'', Object),
      (''__mapper__'', Object), (''_sa_class_manager'', Object), (''_sa_registry'', Object),
      (''__init__'', Object), (''__class__'', Object), (''__dict__'', Object),
      (''__weakref__'', Object), (''__annotations__'', Object), (''__new__'', Object),
      (''__repr__'', Object), (''__str__'', Object), (''__hash__'', Object),
      (''__eq__'', Object), (''__ne__'', Object), (''__lt__'', Object), (''__le__'', Object),
      (''__gt__'', Object), (''__ge__'', Object), (''__getattribute__'', Object),
      (''__setattr__'', Object), (''__delattr__'', Object), (''__dir__'', Object),
      (''__format__'', Object), (''__sizeof__'', Object), (''__reduce__'', Object),
      (''__reduce_ex__'', Object), (''__init_subclass__'', Object),
      (''__subclasshook__'', Object), (''__bases__'', Object), (''__base__'', Object),
      (''__mro__'', Object), (''mro'', Object), (''__subclasses__'', Object),
      (''__instancecheck__'', Object), (''__subclasscheck__'', Object),
      (''__prepare__'', Object), (''__call__'', Object), (''__or__'', Object),
      (''__ror__'', Object), (''__basicsize__'', Object), (''__itemsize__'', Object),
      (''__flags__'', Object), (''__dictoffset__'', Object), (''__weakrefoffset__'', Object)]"

text \<open>
  \<^verbatim>\<open>getattr(Customer, sort_key, "first_name")\<close>: the attribute of that name, and the
  string \<^verbatim>\<open>"first_name"\<close> for a name the class has no attribute of.
\<close>

definition getattr_Customer :: "string \<Rightarrow> string \<Rightarrow> attr" where
  "getattr_Customer name dflt =
     (case map_of customer_columns name of
        Some f \<Rightarrow> Column f
      | None \<Rightarrow> (case map_of other_attributes name of
                   Some a \<Rightarrow> a
                 | None \<Rightarrow> Label dflt))"

text \<open>
  The expression \<^verbatim>\<open>order_by\<close> is given: the column to order by, or no ordering.
\<close>

definition order_by_expr :: "attr \<Rightarrow> error + (Customer \<Rightarrow> val) option" where
  "order_by_expr a =
     (case a of
        Column f \<Rightarrow> Inr (Some f)
      | NoneAttr \<Rightarrow> Inr None
      | Label l \<Rightarrow> (case map_of customer_columns l of
                      None \<Rightarrow> Inl CompileError
                    | Some f \<Rightarrow> Inr (Some f))
      | Object \<Rightarrow> Inl ArgumentError)"

definition asc :: "(val \<Rightarrow> val \<Rightarrow> bool) \<Rightarrow> (Customer \<Rightarrow> val) \<Rightarrow> Customer \<Rightarrow> Customer \<Rightarrow> bool" where
  "asc le f a b = le (f a) (f b)"

definition desc :: "(val \<Rightarrow> val \<Rightarrow> bool) \<Rightarrow> (Customer \<Rightarrow> val) \<Rightarrow> Customer \<Rightarrow> Customer \<Rightarrow> bool" where
  "desc le f a b = le (f b) (f a)"

text \<open>
  \<^verbatim>\<open>sort_customers(organization_id, sort_key, offset, size, sort_dir, db)\<close>. Without
  an ordering the rows come in storage order.
\<close>

definition sort_customers ::
  "(val \<Rightarrow> val \<Rightarrow> bool) \<Rightarrow>
   string \<Rightarrow> string \<Rightarrow> nat \<Rightarrow> nat \<Rightarrow> string \<Rightarrow> Customer list \<Rightarrow> error + Customer list" where
  "sort_customers le org_id sort_key' offset size' sort_dir db =
     (if sort_dir = ''desc''
      then (case order_by_expr (getattr_Customer sort_key' ''first_name'') of
              Inl e \<Rightarrow> Inl e
            | Inr None \<Rightarrow>
                Inr (offset_limit offset size'
                       (filter (\<lambda>c. Customer.is_deleted c = False)
                          (filter (\<lambda>c. Customer.organization_id c = org_id) db)))
            | Inr (Some f) \<Rightarrow>
                Inr (offset_limit offset size'
                       (order_by (desc le f)
                          (filter (\<lambda>c. Customer.is_deleted c = False)
                             (filter (\<lambda>c. Customer.organization_id c = org_id) db)))))
      else (case order_by_expr (getattr_Customer sort_key' ''first_name'') of
              Inl e \<Rightarrow> Inl e
            | Inr None \<Rightarrow>
                Inr (offset_limit offset size'
                       (filter (\<lambda>c. Customer.is_deleted c = False)
                          (filter (\<lambda>c. Customer.organization_id c = org_id) db)))
            | Inr (Some f) \<Rightarrow>
                Inr (offset_limit offset size'
                       (order_by (asc le f)
                          (filter (\<lambda>c. Customer.is_deleted c = False)
                             (filter (\<lambda>c. Customer.organization_id c = org_id) db))))))"

text \<open>
  \<^verbatim>\<open>get_customer_by_id(customer_id, db)\<close>: the first row with that short id, or
  \<^verbatim>\<open>None\<close>; the result is what \<^verbatim>\<open>.first()\<close> hands to \<^verbatim>\<open>from_orm\<close>.
\<close>

definition get_customer_by_id :: "string \<Rightarrow> Customer list \<Rightarrow> Customer option" where
  "get_customer_by_id cid db = find (\<lambda>c. Customer.customer_id c = cid) db"

section \<open>Bank accounts\<close>

text \<open>
  \<^verbatim>\<open>bigfastapi/banks.py\<close>. The ORM class \<^verbatim>\<open>bank_models.BankModels\<close> and the
  request schema \<^verbatim>\<open>bank_schemas.AddBank\<close> are not among the source files; their
  fields are the ones the handlers read and write.
\<close>

record BankModels =
  id' :: string
  organisation_id :: string
  creator_id :: string
  account_number :: string
  bank_name :: string
  recipient_name :: string
  country :: string
  sort_code :: string
  swift_code :: string
  bank_address :: string
  is_preferred :: bool
  account_type :: string
  aba_routing_number :: string
  iban :: string
  is_deleted :: bool
  date_created :: timestamp

record AddBank =
  organisation_id :: string
  account_number :: string
  bank_name :: string
  recipient_name :: string
  country :: string
  sort_code :: string
  swift_code :: string
  bank_address :: string
  is_preferred :: bool
  account_type :: string
  aba_routing_number :: string
  iban :: string
  date_created :: timestamp

text \<open>
  The database as the bank handlers see it: the rows of the bank table in storage order,
  and the membership records. A row is known to the session by its position, which
  stands for the identity of the ORM object: two queries that find the same row hold the
  same object. The authenticated \<^verbatim>\<open>user\<close> is its \<^verbatim>\<open>id\<close>, the only field read.
\<close>

record bank_db =
  banks :: "BankModels list"
  members :: "(string \<times> string) list"

text \<open>
  Modelled from the spec: \<^verbatim>\<open>organisation_models.is_organization_member\<close> is not
  among the source files. Section 4.2: \<^verbatim>\<open>is_member(user_id, organization_id)\<close> decides
  membership from the membership records, which it queries and never changes.
\<close>

definition is_organization_member :: "string \<Rightarrow> string \<Rightarrow> bank_db \<Rightarrow> bool" where
  "is_organization_member user_id org_id db = ((user_id, org_id) \<in> set (members db))"

text \<open>\<^verbatim>\<open>query.first()\<close>: the position of the first row that satisfies the filter.\<close>

fun first_index :: "('a \<Rightarrow> bool) \<Rightarrow> 'a list \<Rightarrow> nat option" where
  "first_index P [] = None"
| "first_index P (x # xs) = (if P x then Some 0 else map_option Suc (first_index P xs))"

text \<open>
  Modelled from the spec: \<^verbatim>\<open>bank_models.fetch_bank\<close> is not among the source
  files. Section 4.3, \<^verbatim>\<open>get(id)\<close>: fails with \<^verbatim>\<open>NotFound\<close> if no non-deleted record
  with that id exists; the lookup is not scoped by organization, the membership check
  being the caller's.
\<close>

definition fetch_bank :: "string \<Rightarrow> string \<Rightarrow> bank_db \<Rightarrow> error + nat" where
  "fetch_bank user bank_id db =
     (case first_index (\<lambda>b. BankModels.id' b = bank_id \<and> \<not> BankModels.is_deleted b) (banks db) of
        None \<Rightarrow> Inl NotFound
      | Some i \<Rightarrow> Inr i)"

text \<open>
  Modelled from the spec: \<^verbatim>\<open>bank_models.add_bank\<close> is not among the source files.
  Section 4.3, \<^verbatim>\<open>create\<close>: the membership check is the caller's; persists the new
  record and returns it.
\<close>

definition add_bank :: "string \<Rightarrow> BankModels \<Rightarrow> bank_db \<Rightarrow> error + bank_db \<times> BankModels" where
  "add_bank user addbank db = Inr (db\<lparr>banks := banks db @ [addbank]\<rparr>, addbank)"

text \<open>
  Modelled from the spec: \<^verbatim>\<open>bank_models.update_bank\<close> is not among the source
  files. Section 3: a record is mutated in place on update. It commits the session (the
  pending rows) and returns the record.
\<close>

definition update_bank ::
  "nat \<Rightarrow> BankModels list \<Rightarrow> bank_db \<Rightarrow> error + bank_db \<times> BankModels" where
  "update_bank addBank session db = Inr (db\<lparr>banks := session\<rparr>, session ! addBank)"

text \<open>
  \<^verbatim>\<open>add_bank_detail(bank, user, db)\<close>; \<^verbatim>\<open>uuid4().hex\<close> is the argument
  \<open>new_id\<close>. The constructor is given no \<^verbatim>\<open>is_deleted\<close>: the new row is not deleted.
\<close>

definition add_bank_detail ::
  "string \<Rightarrow> AddBank \<Rightarrow> string \<Rightarrow> bank_db \<Rightarrow> error + bank_db \<times> BankModels" where
  "add_bank_detail new_id bank user db =
     (if \<not> is_organization_member user (AddBank.organisation_id bank) db then Inl Forbidden
      else add_bank user
        \<lparr>BankModels.id' = new_id,
         organisation_id = AddBank.organisation_id bank,
         creator_id = user,
         account_number = AddBank.account_number bank,
         bank_name = AddBank.bank_name bank,
         recipient_name = AddBank.recipient_name bank,
         country = AddBank.country bank,
         sort_code = AddBank.sort_code bank,
         swift_code = AddBank.swift_code bank,
         bank_address = AddBank.bank_address bank,
         is_preferred = AddBank.is_preferred bank,
         account_type = AddBank.account_type bank,
         aba_routing_number = AddBank.aba_routing_number bank,
         iban = AddBank.iban bank,
         is_deleted = False,
         date_created = AddBank.date_created bank\<rparr> db)"

text \<open>
  \<^verbatim>\<open>get_organization_bank_accounts(organization_id, user, db, page_size, page_number)\<close>.
  \<^verbatim>\<open>paginate(banks_list)\<close> of \<^verbatim>\<open>fastapi_pagination\<close> takes its page and size from
  the request (the handler's own \<^verbatim>\<open>page_size\<close> and \<^verbatim>\<open>page_number\<close> are not passed to
  it), which the library has validated before the handler runs (a page of at least 1, a
  size within its bounds): the items are the slice \<^verbatim>\<open>[size * (page - 1) : size * page]\<close>,
  with the length of the whole list as total.
\<close>

record 'a Page =
  items :: "'a list"
  total' :: nat
  page :: nat
  size' :: nat

definition paginate :: "nat \<Rightarrow> nat \<Rightarrow> 'a list \<Rightarrow> 'a Page" where
  "paginate pg sz xs =
     \<lparr>items = take sz (drop (sz * (pg - 1)) xs), total' = length xs, page = pg, size' = sz\<rparr>"

definition get_organization_bank_accounts ::
  "nat \<Rightarrow> nat \<Rightarrow> string \<Rightarrow> string \<Rightarrow> bank_db \<Rightarrow> error + BankModels Page" where
  "get_organization_bank_accounts pg sz org_id user db =
     (if \<not> is_organization_member user org_id db then Inl Forbidden
      else Inr (paginate pg sz
        (filter (\<lambda>b. BankModels.is_deleted b = False)
           (filter (\<lambda>b. BankModels.organisation_id b = org_id) (banks db)))))"

text \<open>\<^verbatim>\<open>get_single_bank(org_id, bank_id, user, db)\<close>; \<^verbatim>\<open>org_id\<close> is not read.\<close>

definition get_single_bank ::
  "string \<Rightarrow> string \<Rightarrow> string \<Rightarrow> bank_db \<Rightarrow> error + BankModels" where
  "get_single_bank org_id bank_id user db =
     (case fetch_bank user bank_id db of
        Inl e \<Rightarrow> Inl e
      | Inr bank \<Rightarrow> Inr (banks db ! bank))"

text \<open>
  \<^verbatim>\<open>update_bank_details(bank_id, bank, user, db)\<close>. The membership check reads the
  organisation id of the request body. The eleven assignments change the fetched object
  in the session; the query for the current preferred bank reads the stored rows (the
  session factory \<^verbatim>\<open>get_db\<close> is not among the source files: a session that does not
  flush before a query, as FastAPI's \<^verbatim>\<open>sessionmaker(autoflush=False)\<close>), over all
  organisations and deleted rows too, and \<^verbatim>\<open>.first()\<close> gives the session's object for
  the first such row, which is \<^verbatim>\<open>bank_account\<close> itself when that row is the fetched
  one. The commit writes every pending change.
\<close>

definition update_bank_details ::
  "string \<Rightarrow> AddBank \<Rightarrow> string \<Rightarrow> bank_db \<Rightarrow> error + bank_db \<times> BankModels" where
  "update_bank_details bank_id bank user db =
     (if \<not> is_organization_member user (AddBank.organisation_id bank) db then Inl Forbidden
      else case fetch_bank user bank_id db of
        Inl e \<Rightarrow> Inl e
      | Inr bank_account \<Rightarrow>
          (let session = (banks db)[bank_account := (banks db ! bank_account)
                 \<lparr>BankModels.account_number := AddBank.account_number bank,
                  BankModels.bank_name := AddBank.bank_name bank,
                  BankModels.recipient_name := AddBank.recipient_name bank,
                  BankModels.country := AddBank.country bank,
                  BankModels.sort_code := AddBank.sort_code bank,
                  BankModels.swift_code := AddBank.swift_code bank,
                  BankModels.bank_address := AddBank.bank_address bank,
                  BankModels.account_type := AddBank.account_type bank,
                  BankModels.is_preferred := AddBank.is_preferred bank,
                  BankModels.aba_routing_number := AddBank.aba_routing_number bank,
                  BankModels.iban := AddBank.iban bank\<rparr>];
               session' =
                 (if AddBank.is_preferred bank
                  then (case first_index (\<lambda>b. BankModels.is_preferred b = True) (banks db) of
                          None \<Rightarrow> session
                        | Some current_preferred_bank \<Rightarrow>
                            session[current_preferred_bank :=
                              (session ! current_preferred_bank)\<lparr>BankModels.is_preferred := False\<rparr>])
                  else session)
           in update_bank bank_account session' db))"

text \<open>
  \<^verbatim>\<open>delete_bank(bank_id, user, db)\<close>: the membership check reads the organisation id
  of the fetched row.
\<close>

definition delete_bank :: "string \<Rightarrow> string \<Rightarrow> bank_db \<Rightarrow> error + bank_db" where
  "delete_bank bank_id user db =
     (case fetch_bank user bank_id db of
        Inl e \<Rightarrow> Inl e
      | Inr bank \<Rightarrow>
          if \<not> is_organization_member user (BankModels.organisation_id (banks db ! bank)) db
          then Inl Forbidden
          else Inr (db\<lparr>banks := (banks db)[bank := (banks db ! bank)\<lparr>BankModels.is_deleted := True\<rparr>]\<rparr>))"

section \<open>The country schema table\<close>

text \<open>
  \<^verbatim>\<open>BankValidator\<close>. The table \<^verbatim>\<open>country_info\<close> is read from
  \<^verbatim>\<open>data/bank.json\<close>, which is not among the source files: it is an argument, a
  dictionary from a country to the dictionary of its fields. A subscript with a missing
  key raises \<^verbatim>\<open>KeyError\<close>, and \<^verbatim>\<open>None\<close> is no key of a JSON dictionary. The
  result is a whole entry or one field of it.
\<close>

datatype 'v country_data = Entry "string \<rightharpoonup> 'v" | Field 'v

definition getitem :: "('k \<rightharpoonup> 'v) \<Rightarrow> 'k \<Rightarrow> error + 'v" where
  "getitem d k = (case d k of None \<Rightarrow> Inl KeyError | Some v \<Rightarrow> Inr v)"

definition get_country_data ::
  "(string \<rightharpoonup> (string \<rightharpoonup> 'v)) \<Rightarrow> string \<Rightarrow> string option \<Rightarrow> error + 'v country_data" where
  "get_country_data country_info country' info =
     (if country_info country' = None \<and> info = None
      then (case getitem country_info ''others'' of
              Inl e \<Rightarrow> Inl e
            | Inr others \<Rightarrow> Inr (Entry others))
      else if country_info country' = None
      then (case getitem country_info ''others'' of
              Inl e \<Rightarrow> Inl e
            | Inr others \<Rightarrow>
                (case info of
                   None \<Rightarrow> Inl KeyError
                 | Some k \<Rightarrow> (case getitem others k of Inl e \<Rightarrow> Inl e | Inr v \<Rightarrow> Inr (Field v))))
      else if truthy_str info
      then (case getitem country_info country' of
              Inl e \<Rightarrow> Inl e
            | Inr entry \<Rightarrow>
                (case info of
                   None \<Rightarrow> Inl KeyError
                 | Some k \<Rightarrow> (case getitem entry k of Inl e \<Rightarrow> Inl e | Inr v \<Rightarrow> Inr (Field v))))
      else (case getitem country_info country' of
              Inl e \<Rightarrow> Inl e
            | Inr entry \<Rightarrow> Inr (Entry entry)))"

section \<open>Sample data\<close>

text \<open>A stored customer and the empty update request.\<close>

definition jane :: Customer where
  "jane = \<lparr>Customer.id' = ''c1'', customer_id = ''SHORT1'', organization_id = ''org1'',
     email = Some ''jane@example.org'', first_name = Some ''Jane'', last_name = Some ''Doe'',
     unique_id = Some ''ABC123'', phone_number = Some ''0800'', business_name = Some ''Doe Ltd'',
     location = Some ''Accra'', gender = Some ''f'', age = Some 30, postal_code = Some ''00233'',
     language = Some ''en'', country = Some ''Ghana'', city = Some ''Accra'',
     region = Some ''Greater Accra'', auto_reminder = False, country_code = Some ''GH'',
     is_deleted = False, date_created = 10, last_updated = 10\<rparr>"

definition no_update :: CustomerUpdate where
  "no_update = \<lparr>CustomerUpdate.first_name = None, last_name = None, unique_id = None,
     email = None, phone_number = None, location = None, business_name = None, gender = None,
     age = None, postal_code = None, language = None, country = None, city = None,
     region = None, country_code = None\<rparr>"

text \<open>A second customer, of another organization.\<close>

definition jan_smith :: Customer where
  "jan_smith = jane\<lparr>Customer.id' := ''c2'', Customer.customer_id := ''SHORT2'',
     Customer.organization_id := ''org2'', Customer.first_name := Some ''Jan'',
     Customer.last_name := Some ''Smith'', Customer.unique_id := Some ''XYZ789'',
     Customer.date_created := 20\<rparr>"

text \<open>A third customer, of the first organization, created last.\<close>

definition janet :: Customer where
  "janet = jane\<lparr>Customer.id' := ''c3'', Customer.customer_id := ''SHORT3'',
     Customer.first_name := Some ''Janet'', Customer.last_name := Some ''Roe'',
     Customer.unique_id := Some ''jan'', Customer.date_created := 30\<rparr>"



text \<open>A bank row and a request body, by id or organisation and preferred flag.\<close>

definition sample_bank :: "string \<Rightarrow> string \<Rightarrow> bool \<Rightarrow> BankModels" where
  "sample_bank ident org pref =
     \<lparr>BankModels.id' = ident, organisation_id = org, creator_id = ''u0'',
      account_number = ''0001'', bank_name = ''First Bank'', recipient_name = ''Jane Doe'',
      country = ''Ghana'', sort_code = ''00-00-00'', swift_code = ''FBGHAC'',
      bank_address = ''1 High Street'', is_preferred = pref, account_type = ''current'',
      aba_routing_number = ''000000000'', iban = ''GH00'', is_deleted = False,
      date_created = 1\<rparr>"

definition sample_request :: "string \<Rightarrow> bool \<Rightarrow> AddBank" where
  "sample_request org pref =
     \<lparr>AddBank.organisation_id = org, account_number = ''9999'', bank_name = ''Second Bank'',
      recipient_name = ''John Roe'', country = ''Ghana'', sort_code = ''11-11-11'',
      swift_code = ''SBGHAC'', bank_address = ''2 Low Street'', is_preferred = pref,
      account_type = ''savings'', aba_routing_number = ''111111111'', iban = ''GH11'',
      date_created = 2\<rparr>"

text \<open>
  Four databases: no bank, with \<^verbatim>\<open>u1\<close> a member of \<^verbatim>\<open>org1\<close>; one bank of
  \<^verbatim>\<open>org1\<close>, with \<^verbatim>\<open>u2\<close> a member of \<^verbatim>\<open>org2\<close> only; three banks, two of
  them preferred, one in each organisation; and two banks of \<^verbatim>\<open>org1\<close>, the first
  preferred.
\<close>

definition db_empty :: bank_db where
  "db_empty = \<lparr>banks = [], members = [(''u1'', ''org1'')]\<rparr>"

definition db_one :: bank_db where
  "db_one = \<lparr>banks = [sample_bank ''b1'' ''org1'' True],
             members = [(''u1'', ''org1''), (''u2'', ''org2'')]\<rparr>"

definition db_three :: bank_db where
  "db_three = \<lparr>banks = [sample_bank ''a1'' ''org2'' True, sample_bank ''a2'' ''org1'' True,
                        sample_bank ''b3'' ''org1'' False],
               members = [(''u1'', ''org1''), (''u2'', ''org2'')]\<rparr>"

definition db_two :: bank_db where
  "db_two = \<lparr>banks = [sample_bank ''a1'' ''org1'' True, sample_bank ''b2'' ''org1'' False],
             members = [(''u1'', ''org1'')]\<rparr>"

text \<open>A schema table with the catch-all entry and one country.\<close>

definition sample_table :: "string \<rightharpoonup> (string \<rightharpoonup> string)" where
  "sample_table =
     [''others'' \<mapsto> [''schema'' \<mapsto> ''account_number,bank_name''],
      ''United States'' \<mapsto> [''schema'' \<mapsto> ''account_number,aba_routing_number'']]"

section \<open>Properties of the customer update\<close>

text \<open>
  C9. For every update input and existing customer record, \<^verbatim>\<open>put_customer\<close> never
  modifies the stored country code: a truthy country code of the input is written into
  the region field instead (after, and so over, the input's own region), and otherwise
  the region is the input's region when that is truthy and the stored one when not.
\<close>

theorem put_customer_country_code:
  "Customer.country_code (put_customer now customer customer_instance)
     = Customer.country_code customer_instance
   \<and> Customer.region (put_customer now customer customer_instance)
     = (if truthy_str (CustomerUpdate.country_code customer)
        then CustomerUpdate.country_code customer
        else if truthy_str (CustomerUpdate.region customer) then CustomerUpdate.region customer
        else Customer.region customer_instance)"
  by (simp add: put_customer_def Let_def)

theorem put_customer_country_code_witness:
  "Customer.country_code
     (put_customer 99 (no_update\<lparr>CustomerUpdate.country_code := Some ''NG''\<rparr>) jane) = Some ''GH''
   \<and> Customer.region
     (put_customer 99 (no_update\<lparr>CustomerUpdate.country_code := Some ''NG''\<rparr>) jane) = Some ''NG''"
  using put_customer_country_code
    [of 99 "no_update\<lparr>CustomerUpdate.country_code := Some ''NG''\<rparr>" jane]
  by (simp add: no_update_def jane_def truthy_str_def)

text \<open>
  C4. The claim: a stored field is overwritten only when the corresponding input field is
  truthy, and a field whose input is absent stays as it was. At the request that carries
  a country code and nothing else, the code leaves the stored country code (\<^verbatim>\<open>GH\<close>)
  and overwrites the stored region, whose own input is absent.
\<close>

theorem put_customer_country_code_only:
  "put_customer 99 (no_update\<lparr>CustomerUpdate.country_code := Some ''NG''\<rparr>) jane
     = jane\<lparr>Customer.region := Some ''NG'', Customer.last_updated := 99\<rparr>"
  by (simp add: put_customer_def Let_def no_update_def jane_def truthy_str_def truthy_int_def)

text \<open>
  The rest of that claim holds: a request with a first name only changes the first name
  and the timestamp, and the timestamp is always the call's.
\<close>

lemma put_customer_first_name_only:
  "truthy_str (Some x) \<Longrightarrow>
   put_customer now (no_update\<lparr>CustomerUpdate.first_name := Some x\<rparr>) c
     = c\<lparr>Customer.first_name := Some x, Customer.last_updated := now\<rparr>"
  by (simp add: put_customer_def Let_def no_update_def truthy_str_def truthy_int_def)

lemma put_customer_last_updated:
  "Customer.last_updated (put_customer now customer customer_instance) = now"
  by (simp add: put_customer_def Let_def)

section \<open>Rows and positions\<close>

lemma first_index_Some:
  "first_index P xs = Some j \<Longrightarrow> j < length xs \<and> P (xs ! j) \<and> (\<forall>k<j. \<not> P (xs ! k))"
proof (induction xs arbitrary: j)
  case Nil
  then show ?case by simp
next
  case (Cons x xs)
  show ?case
  proof (cases "P x")
    case True
    with Cons.prems show ?thesis by simp
  next
    case False
    with Cons.prems obtain j' where j': "first_index P xs = Some j'" "j = Suc j'"
      by auto
    from Cons.IH[OF j'(1)] False j'(2) show ?thesis
      by (auto simp add: less_Suc_eq_0_disj)
  qed
qed

lemma first_index_None: "first_index P xs = None \<Longrightarrow> \<forall>x\<in>set xs. \<not> P x"
  by (induction xs) (auto split: if_splits)

lemma filter_le_1_unique:
  "length (filter P xs) \<le> 1 \<Longrightarrow> j < length xs \<Longrightarrow> k < length xs \<Longrightarrow> P (xs ! j) \<Longrightarrow> P (xs ! k)
   \<Longrightarrow> j = k"
proof (induction xs arbitrary: j k)
  case Nil
  then show ?case by simp
next
  case (Cons x xs)
  show ?case
  proof (cases "P x")
    case True
    with Cons.prems(1) have "filter P xs = []" by simp
    then have none: "\<forall>y\<in>set xs. \<not> P y" by (simp add: filter_empty_conv)
    have "j = 0"
    proof (rule ccontr)
      assume "j \<noteq> 0"
      then obtain j' where "j = Suc j'" by (cases j) auto
      with Cons.prems(2,4) none show False by auto
    qed
    moreover have "k = 0"
    proof (rule ccontr)
      assume "k \<noteq> 0"
      then obtain k' where "k = Suc k'" by (cases k) auto
      with Cons.prems(3,5) none show False by auto
    qed
    ultimately show ?thesis by simp
  next
    case False
    with Cons.prems obtain j' k' where jk: "j = Suc j'" "k = Suc k'"
      by (cases j; cases k) auto
    with Cons.prems False have "j' = k'"
      by (intro Cons.IH) auto
    with jk show ?thesis by simp
  qed
qed

lemma filter_only_index:
  "i < length xs \<Longrightarrow> \<forall>k<length xs. P (xs ! k) \<longleftrightarrow> k = i \<Longrightarrow> filter P xs = [xs ! i]"
proof (induction xs arbitrary: i)
  case Nil
  then show ?case by simp
next
  case (Cons x xs)
  show ?case
  proof (cases i)
    case 0
    from Cons.prems(2) have "\<forall>k<length xs. \<not> P (xs ! k)"
      using 0 by (metis Suc_less_eq length_Cons nat.distinct(1) nth_Cons_Suc)
    then have "filter P xs = []"
      by (auto simp add: filter_empty_conv in_set_conv_nth)
    moreover from Cons.prems(2) 0 have "P x" by auto
    ultimately show ?thesis using 0 by simp
  next
    case (Suc i')
    from Cons.prems(2) Suc have nx: "\<not> P x" by auto
    have "\<forall>k<length xs. P (xs ! k) \<longleftrightarrow> k = i'"
    proof (intro allI impI)
      fix k assume "k < length xs"
      with Cons.prems(2) have "P ((x # xs) ! Suc k) \<longleftrightarrow> Suc k = i" by auto
      with Suc show "P (xs ! k) \<longleftrightarrow> k = i'" by simp
    qed
    with Cons.IH[of i'] Cons.prems(1) Suc have "filter P xs = [xs ! i']" by simp
    with nx Suc show ?thesis by simp
  qed
qed

lemma fetch_bank_Inr:
  "fetch_bank user bank_id db = Inr i \<Longrightarrow>
   i < length (banks db) \<and> BankModels.id' (banks db ! i) = bank_id
   \<and> \<not> BankModels.is_deleted (banks db ! i)"
  by (auto simp add: fetch_bank_def split: option.splits dest: first_index_Some)

section \<open>Properties of the bank handlers\<close>

text \<open>
  C1. The claim: a user who is not a member of the organisation that owns a bank account
  gets \<^verbatim>\<open>Forbidden\<close> from get, update and delete. \<^verbatim>\<open>u2\<close> is a member of
  \<^verbatim>\<open>org2\<close> only, and the account \<^verbatim>\<open>b1\<close> belongs to \<^verbatim>\<open>org1\<close>:
  \<^verbatim>\<open>get_single_bank\<close> returns the account, and \<^verbatim>\<open>update_bank_details\<close> with a
  body that names \<^verbatim>\<open>org2\<close> overwrites it (its organisation stays \<^verbatim>\<open>org1\<close>).
\<close>

theorem non_member_gets_and_updates_bank:
  "\<not> is_organization_member ''u2'' ''org1'' db_one
   \<and> get_single_bank ''org2'' ''b1'' ''u2'' db_one = Inr (sample_bank ''b1'' ''org1'' True)
   \<and> (case update_bank_details ''b1'' (sample_request ''org2'' False) ''u2'' db_one of
        Inl e \<Rightarrow> False
      | Inr (db', r) \<Rightarrow>
          map BankModels.account_number (banks db') = [''9999'']
          \<and> map BankModels.organisation_id (banks db') = [''org1''])"
  by (simp add: get_single_bank_def fetch_bank_def db_one_def sample_bank_def sample_request_def
       update_bank_details_def is_organization_member_def update_bank_def Let_def)

text \<open>Of the three handlers, \<^verbatim>\<open>delete_bank\<close> does refuse the non-member.\<close>

lemma delete_bank_forbidden:
  "fetch_bank user bank_id db = Inr i \<Longrightarrow>
   \<not> is_organization_member user (BankModels.organisation_id (banks db ! i)) db \<Longrightarrow>
   delete_bank bank_id user db = Inl Forbidden"
  by (simp add: delete_bank_def)

text \<open>
  C2, as claimed: after any update with \<^verbatim>\<open>is_preferred = true\<close> at most one
  non-deleted account is preferred and the previously preferred one is cleared. With two
  preferred accounts stored, the update of a third clears the first only.
\<close>

theorem update_bank_details_two_preferred:
  "(case update_bank_details ''b3'' (sample_request ''org1'' True) ''u1'' db_three of
      Inl e \<Rightarrow> False
    | Inr (db', r) \<Rightarrow>
        map (\<lambda>b. (BankModels.id' b, BankModels.is_preferred b, BankModels.is_deleted b)) (banks db')
          = [(''a1'', False, False), (''a2'', True, False), (''b3'', True, False)])"
  by (simp add: fetch_bank_def db_three_def sample_bank_def sample_request_def
       update_bank_details_def is_organization_member_def update_bank_def Let_def)

text \<open>
  C2, amended. If at most one stored account is preferred and it is not the account
  being updated, then an update with \<^verbatim>\<open>is_preferred = true\<close> by a member of the
  request's organisation succeeds, and afterwards the updated account is the only
  preferred account of the store: it reads preferred, at most one non-deleted account is
  preferred, and every account that was preferred before is cleared.
\<close>

theorem update_bank_details_preferred:
  assumes mem: "is_organization_member user (AddBank.organisation_id bank) db"
    and fetch: "fetch_bank user bank_id db = Inr i"
    and pref: "AddBank.is_preferred bank"
    and one: "length (filter BankModels.is_preferred (banks db)) \<le> 1"
    and other: "\<not> BankModels.is_preferred (banks db ! i)"
  shows "\<exists>db' r. update_bank_details bank_id bank user db = Inr (db', r)
           \<and> r = banks db' ! i
           \<and> BankModels.is_preferred r
           \<and> filter BankModels.is_preferred (banks db') = [r]
           \<and> length (filter (\<lambda>b. BankModels.is_preferred b \<and> \<not> BankModels.is_deleted b)
                        (banks db')) \<le> 1
           \<and> length (banks db') = length (banks db)
           \<and> (\<forall>j<length (banks db). BankModels.is_preferred (banks db ! j)
                 \<longrightarrow> \<not> BankModels.is_preferred (banks db' ! j))"
proof -
  let ?P = "\<lambda>b. BankModels.is_preferred b = True"
  define upd where "upd = (banks db ! i)
                 \<lparr>BankModels.account_number := AddBank.account_number bank,
                  BankModels.bank_name := AddBank.bank_name bank,
                  BankModels.recipient_name := AddBank.recipient_name bank,
                  BankModels.country := AddBank.country bank,
                  BankModels.sort_code := AddBank.sort_code bank,
                  BankModels.swift_code := AddBank.swift_code bank,
                  BankModels.bank_address := AddBank.bank_address bank,
                  BankModels.account_type := AddBank.account_type bank,
                  BankModels.is_preferred := AddBank.is_preferred bank,
                  BankModels.aba_routing_number := AddBank.aba_routing_number bank,
                  BankModels.iban := AddBank.iban bank\<rparr>"
  define session where "session = (banks db)[i := upd]"
  define session' where "session' =
     (case first_index ?P (banks db) of
        None \<Rightarrow> session
      | Some j \<Rightarrow> session[j := (session ! j)\<lparr>BankModels.is_preferred := False\<rparr>])"
  have res: "update_bank_details bank_id bank user db = Inr (db\<lparr>banks := session'\<rparr>, session' ! i)"
    unfolding update_bank_details_def update_bank_def Let_def session'_def session_def upd_def
    using mem fetch pref by simp
  from fetch have i: "i < length (banks db)" by (simp add: fetch_bank_Inr)
  have upd_pref: "BankModels.is_preferred upd" using pref by (simp add: upd_def)
  have len: "length session' = length (banks db)"
    by (simp add: session'_def session_def split: option.splits)
  have only: "\<forall>k<length session'. BankModels.is_preferred (session' ! k) \<longleftrightarrow> k = i"
  proof (cases "first_index ?P (banks db)")
    case None
    then have "\<forall>x\<in>set (banks db). \<not> BankModels.is_preferred x"
      using first_index_None[of ?P "banks db"] by simp
    then have "\<forall>k<length (banks db). \<not> BankModels.is_preferred (banks db ! k)" by simp
    with None i upd_pref show ?thesis
      by (auto simp add: session'_def session_def nth_list_update)
  next
    case (Some j)
    from first_index_Some[OF Some]
    have j: "j < length (banks db)" "BankModels.is_preferred (banks db ! j)"
      by simp_all
    with other have ji: "j \<noteq> i" by auto
    have uniq: "\<forall>k<length (banks db). BankModels.is_preferred (banks db ! k) \<longrightarrow> k = j"
      using filter_le_1_unique[OF one _ j(1) _ j(2)] by blast
    show ?thesis
    proof (intro allI impI)
      fix k assume "k < length session'"
      with len have k: "k < length (banks db)" by simp
      show "BankModels.is_preferred (session' ! k) \<longleftrightarrow> k = i"
      proof (cases "k = j")
        case True
        with Some j k ji show ?thesis
          by (simp add: session'_def session_def)
      next
        case False
        with uniq k have "\<not> BankModels.is_preferred (banks db ! k)" by blast
        with Some False k i upd_pref show ?thesis
          by (simp add: session'_def session_def nth_list_update)
      qed
    qed
  qed
  from i len have i': "i < length session'" by simp
  have filt: "filter BankModels.is_preferred session' = [session' ! i]"
    by (rule filter_only_index[OF i' only])
  have "filter (\<lambda>b. BankModels.is_preferred b \<and> \<not> BankModels.is_deleted b) session'
          = filter (\<lambda>b. \<not> BankModels.is_deleted b) (filter BankModels.is_preferred session')"
    by (simp add: conj_commute)
  with filt
  have le1: "length (filter (\<lambda>b. BankModels.is_preferred b \<and> \<not> BankModels.is_deleted b) session') \<le> 1"
    by simp
  have cleared: "\<forall>j<length (banks db). BankModels.is_preferred (banks db ! j)
                 \<longrightarrow> \<not> BankModels.is_preferred (session' ! j)"
    using only other len by auto
  from only i' have "BankModels.is_preferred (session' ! i)" by simp
  with res filt le1 len cleared show ?thesis by simp
qed

theorem update_bank_details_preferred_witness:
  "is_organization_member ''u1'' (AddBank.organisation_id (sample_request ''org1'' True)) db_two
   \<and> fetch_bank ''u1'' ''b2'' db_two = Inr 1
   \<and> AddBank.is_preferred (sample_request ''org1'' True)
   \<and> length (filter BankModels.is_preferred (banks db_two)) \<le> 1
   \<and> \<not> BankModels.is_preferred (banks db_two ! 1)
   \<and> (\<exists>db' r. update_bank_details ''b2'' (sample_request ''org1'' True) ''u1'' db_two = Inr (db', r)
           \<and> r = banks db' ! 1
           \<and> BankModels.is_preferred r
           \<and> filter BankModels.is_preferred (banks db') = [r]
           \<and> length (filter (\<lambda>b. BankModels.is_preferred b \<and> \<not> BankModels.is_deleted b)
                        (banks db')) \<le> 1
           \<and> length (banks db') = length (banks db_two)
           \<and> (\<forall>j<length (banks db_two). BankModels.is_preferred (banks db_two ! j)
                 \<longrightarrow> \<not> BankModels.is_preferred (banks db' ! j)))"
proof -
  have h1: "is_organization_member ''u1'' (AddBank.organisation_id (sample_request ''org1'' True)) db_two"
    by (simp add: is_organization_member_def sample_request_def db_two_def)
  have h2: "fetch_bank ''u1'' ''b2'' db_two = Inr 1"
    by (simp add: fetch_bank_def db_two_def sample_bank_def)
  have h3: "AddBank.is_preferred (sample_request ''org1'' True)"
    by (simp add: sample_request_def)
  have h4: "length (filter BankModels.is_preferred (banks db_two)) \<le> 1"
    by (simp add: db_two_def sample_bank_def)
  have h5: "\<not> BankModels.is_preferred (banks db_two ! 1)"
    by (simp add: db_two_def sample_bank_def)
  from update_bank_details_preferred[OF h1 h2 h3 h4 h5] h1 h2 h3 h4 h5
  show ?thesis by blast
qed

text \<open>
  C3. The claim: after a second account of the same organisation is created preferred,
  the first reads not preferred. \<^verbatim>\<open>add_bank_detail\<close> appends the new row and touches
  no other: both accounts of \<^verbatim>\<open>org1\<close> read preferred.
\<close>

theorem add_bank_detail_twice_preferred:
  "(case add_bank_detail ''id1'' (sample_request ''org1'' True) ''u1'' db_empty of
      Inl e \<Rightarrow> False
    | Inr (db1, first) \<Rightarrow>
        (case add_bank_detail ''id2'' (sample_request ''org1'' True) ''u1'' db1 of
           Inl e \<Rightarrow> False
         | Inr (db2, second) \<Rightarrow>
             map (\<lambda>b. (BankModels.id' b, BankModels.organisation_id b, BankModels.is_preferred b))
               (banks db2)
               = [(''id1'', ''org1'', True), (''id2'', ''org1'', True)]))"
  by (simp add: add_bank_detail_def add_bank_def db_empty_def sample_request_def
       is_organization_member_def)

text \<open>
  C10. For every existing bank account, \<^verbatim>\<open>delete_bank\<close> by a member of its
  organisation succeeds and changes only that account's \<^verbatim>\<open>is_deleted\<close> flag, to true:
  with the old flag put back the row is the old row, every other row is unchanged, and
  so are the number of rows and the membership records.
\<close>

theorem delete_bank_frame:
  assumes fetch: "fetch_bank user bank_id db = Inr i"
    and mem: "is_organization_member user (BankModels.organisation_id (banks db ! i)) db"
  shows "\<exists>db'. delete_bank bank_id user db = Inr db'
           \<and> members db' = members db
           \<and> length (banks db') = length (banks db)
           \<and> BankModels.is_deleted (banks db' ! i)
           \<and> (banks db' ! i)\<lparr>BankModels.is_deleted := BankModels.is_deleted (banks db ! i)\<rparr>
               = banks db ! i
           \<and> (\<forall>k<length (banks db). k \<noteq> i \<longrightarrow> banks db' ! k = banks db ! k)"
  using assms fetch_bank_Inr[OF fetch]
  by (simp add: delete_bank_def)

theorem delete_bank_frame_witness:
  "fetch_bank ''u1'' ''b1'' db_one = Inr 0
   \<and> is_organization_member ''u1'' (BankModels.organisation_id (banks db_one ! 0)) db_one
   \<and> (\<exists>db'. delete_bank ''b1'' ''u1'' db_one = Inr db'
           \<and> members db' = members db_one
           \<and> length (banks db') = length (banks db_one)
           \<and> BankModels.is_deleted (banks db' ! 0)
           \<and> (banks db' ! 0)\<lparr>BankModels.is_deleted := BankModels.is_deleted (banks db_one ! 0)\<rparr>
               = banks db_one ! 0
           \<and> (\<forall>k<length (banks db_one). k \<noteq> 0 \<longrightarrow> banks db' ! k = banks db_one ! k))"
proof -
  have h1: "fetch_bank ''u1'' ''b1'' db_one = Inr 0"
    by (simp add: fetch_bank_def db_one_def sample_bank_def)
  have h2: "is_organization_member ''u1'' (BankModels.organisation_id (banks db_one ! 0)) db_one"
    by (simp add: is_organization_member_def db_one_def sample_bank_def)
  from delete_bank_frame[OF h1 h2] h1 h2 show ?thesis by blast
qed

section \<open>Properties of the country schema lookup\<close>

text \<open>
  C8, as claimed: \<^verbatim>\<open>get_country_data\<close> never fails. With an \<^verbatim>\<open>info\<close> that is no
  key of the resolved entry the subscript raises \<^verbatim>\<open>KeyError\<close>.
\<close>

theorem get_country_data_missing_field:
  "get_country_data sample_table ''Nigeria'' (Some ''rules'') = Inl KeyError"
  by (simp add: get_country_data_def getitem_def sample_table_def)

text \<open>
  C8, amended. For a table that has the \<^verbatim>\<open>others\<close> entry: without \<^verbatim>\<open>info\<close> the
  lookup never fails and returns the whole entry of the country, or of \<^verbatim>\<open>others\<close>
  when the country is no key of the table, so that an absent country gives what
  \<^verbatim>\<open>others\<close> gives; with a non-empty \<^verbatim>\<open>info\<close> it returns that field of the resolved
  entry when the entry has it, and fails with \<^verbatim>\<open>KeyError\<close> when not.
\<close>

theorem get_country_data_resolved:
  assumes "country_info ''others'' = Some others"
  shows "get_country_data country_info c None
           = Inr (Entry (case country_info c of None \<Rightarrow> others | Some entry \<Rightarrow> entry))
       \<and> (country_info c = None \<longrightarrow>
            get_country_data country_info c None = get_country_data country_info ''others'' None)
       \<and> (\<forall>k. k \<noteq> [] \<longrightarrow>
            get_country_data country_info c (Some k)
              = (case (case country_info c of None \<Rightarrow> others | Some entry \<Rightarrow> entry) k of
                   None \<Rightarrow> Inl KeyError
                 | Some v \<Rightarrow> Inr (Field v)))"
  using assms
  by (auto simp add: get_country_data_def getitem_def truthy_str_def split: option.splits)

theorem get_country_data_resolved_witness:
  "sample_table ''others'' = Some [''schema'' \<mapsto> ''account_number,bank_name'']
   \<and> get_country_data sample_table ''Nigeria'' None
       = Inr (Entry [''schema'' \<mapsto> ''account_number,bank_name''])
   \<and> get_country_data sample_table ''Nigeria'' None = get_country_data sample_table ''others'' None
   \<and> get_country_data sample_table ''Nigeria'' (Some ''schema'')
       = Inr (Field ''account_number,bank_name'')"
proof -
  have h: "sample_table ''others'' = Some [''schema'' \<mapsto> ''account_number,bank_name'']"
    by (simp add: sample_table_def)
  have n: "sample_table ''Nigeria'' = None" by (simp add: sample_table_def)
  note t = get_country_data_resolved
    [of sample_table "[''schema'' \<mapsto> ''account_number,bank_name'']" "''Nigeria''", OF h]
  from t n have a: "get_country_data sample_table ''Nigeria'' None
      = Inr (Entry [''schema'' \<mapsto> ''account_number,bank_name''])" by simp
  from t n have b: "get_country_data sample_table ''Nigeria'' None
      = get_country_data sample_table ''others'' None" by blast
  from t have "get_country_data sample_table ''Nigeria'' (Some ''schema'')
      = (case (case sample_table ''Nigeria'' of
                 None \<Rightarrow> [''schema'' \<mapsto> ''account_number,bank_name'']
               | Some entry \<Rightarrow> entry) ''schema'' of
           None \<Rightarrow> Inl KeyError
         | Some v \<Rightarrow> Inr (Field v))" by blast
  with n have c: "get_country_data sample_table ''Nigeria'' (Some ''schema'')
      = Inr (Field ''account_number,bank_name'')" by simp
  from h a b c show ?thesis by blast
qed

section \<open>Patterns and ordering\<close>

text \<open>
  What \<^verbatim>\<open>LIKE\<close> means for a search text without wildcards: alone it is equality
  under the collation, between two \<^verbatim>\<open>%\<close> it is the partial match under the
  collation.
\<close>

lemma sql_like_any: "sql_like collate [CHR ''%''] s"
  by (induction s) auto

lemma sql_like_percent:
  "sql_like collate (CHR ''%'' # ps) s \<longleftrightarrow> (\<exists>a b. s = a @ b \<and> sql_like collate ps b)"
proof (induction s)
  case Nil
  then show ?case by simp
next
  case (Cons c t)
  have "sql_like collate (CHR ''%'' # ps) (c # t)
          \<longleftrightarrow> sql_like collate ps (c # t) \<or> sql_like collate (CHR ''%'' # ps) t"
    by simp
  also have "\<dots> \<longleftrightarrow> sql_like collate ps (c # t) \<or> (\<exists>a b. t = a @ b \<and> sql_like collate ps b)"
    using Cons.IH by simp
  also have "\<dots> \<longleftrightarrow> (\<exists>a b. c # t = a @ b \<and> sql_like collate ps b)"
    by (auto simp add: Cons_eq_append_conv)
  finally show ?case .
qed

lemma sql_like_literal:
  "CHR ''%'' \<notin> set v \<Longrightarrow> CHR ''_'' \<notin> set v \<Longrightarrow>
   sql_like collate (v @ ps) s
     \<longleftrightarrow> (\<exists>m t. s = m @ t \<and> map collate m = map collate v \<and> sql_like collate ps t)"
proof (induction v arbitrary: s)
  case Nil
  then show ?case by simp
next
  case (Cons x v)
  then have x: "x \<noteq> CHR ''%''" "x \<noteq> CHR ''_''" and v: "CHR ''%'' \<notin> set v" "CHR ''_'' \<notin> set v"
    by auto
  show ?case
  proof (cases s)
    case Nil
    with x show ?thesis by simp
  next
    case (Cons c t)
    have "sql_like collate ((x # v) @ ps) (c # t)
            \<longleftrightarrow> collate x = collate c \<and> sql_like collate (v @ ps) t"
      using x by simp
    also have "\<dots> \<longleftrightarrow> collate x = collate c
        \<and> (\<exists>m u. t = m @ u \<and> map collate m = map collate v \<and> sql_like collate ps u)"
      using Cons.IH[OF v, of t] by simp
    also have "\<dots> \<longleftrightarrow> (\<exists>m u. c # t = m @ u \<and> map collate m = map collate (x # v)
                              \<and> sql_like collate ps u)"
    proof
      assume "collate x = collate c
        \<and> (\<exists>m u. t = m @ u \<and> map collate m = map collate v \<and> sql_like collate ps u)"
      then obtain m u where "collate x = collate c" "t = m @ u"
        "map collate m = map collate v" "sql_like collate ps u" by blast
      then have "c # t = (c # m) @ u \<and> map collate (c # m) = map collate (x # v)
                   \<and> sql_like collate ps u" by simp
      then show "\<exists>m u. c # t = m @ u \<and> map collate m = map collate (x # v)
                   \<and> sql_like collate ps u" by blast
    next
      assume "\<exists>m u. c # t = m @ u \<and> map collate m = map collate (x # v)
                   \<and> sql_like collate ps u"
      then obtain m u where mu: "c # t = m @ u" "map collate m = map collate (x # v)"
        "sql_like collate ps u" by blast
      from mu(2) obtain m0 m' where m: "m = m0 # m'" by (cases m) auto
      with mu show "collate x = collate c
        \<and> (\<exists>m u. t = m @ u \<and> map collate m = map collate v \<and> sql_like collate ps u)"
        by auto
    qed
    finally show ?thesis using Cons by simp
  qed
qed

lemma sql_like_exact:
  assumes "CHR ''%'' \<notin> set v" "CHR ''_'' \<notin> set v"
  shows "sql_like collate v s \<longleftrightarrow> map collate s = map collate v"
proof -
  have e: "sql_like collate [] t \<longleftrightarrow> t = []" for t by (cases t) auto
  from sql_like_literal[OF assms, of collate "[]" s] e show ?thesis by auto
qed

lemma sql_like_contains:
  assumes "CHR ''%'' \<notin> set v" "CHR ''_'' \<notin> set v"
  shows "sql_like collate (CHR ''%'' # v @ ''%'') s \<longleftrightarrow> sublist (map collate v) (map collate s)"
proof -
  have "sql_like collate (CHR ''%'' # v @ ''%'') s
          \<longleftrightarrow> (\<exists>a b. s = a @ b \<and> sql_like collate (v @ ''%'') b)"
    by (rule sql_like_percent)
  also have "\<dots> \<longleftrightarrow> (\<exists>a b. s = a @ b \<and> (\<exists>m t. b = m @ t \<and> map collate m = map collate v))"
    using sql_like_literal[OF assms, of collate "''%''"] sql_like_any by simp
  also have "\<dots> \<longleftrightarrow> sublist (map collate v) (map collate s)"
  proof
    assume "\<exists>a b. s = a @ b \<and> (\<exists>m t. b = m @ t \<and> map collate m = map collate v)"
    then obtain a m t where "s = a @ m @ t" "map collate m = map collate v" by blast
    then have "map collate s = map collate a @ map collate v @ map collate t" by simp
    then show "sublist (map collate v) (map collate s)" unfolding sublist_def by blast
  next
    assume "sublist (map collate v) (map collate s)"
    then obtain ps ss where "map collate s = ps @ map collate v @ ss"
      unfolding sublist_def by blast
    then have "\<exists>a r. s = a @ r \<and> ps = map collate a \<and> map collate v @ ss = map collate r"
      by (simp only: map_eq_append_conv)
    then obtain a r where ar: "s = a @ r" "map collate r = map collate v @ ss"
      by auto
    from ar(2) have "\<exists>m t. r = m @ t \<and> map collate v = map collate m \<and> ss = map collate t"
      by (simp only: map_eq_append_conv)
    then obtain m t where "r = m @ t" "map collate m = map collate v"
      by auto
    with ar(1) show "\<exists>a b. s = a @ b \<and> (\<exists>m t. b = m @ t \<and> map collate m = map collate v)"
      by blast
  qed
  finally show ?thesis .
qed

lemma set_insort_by: "set (insort_by le x xs) = insert x (set xs)"
  by (induction xs) auto

lemma mset_insort_by: "mset (insort_by le x xs) = add_mset x (mset xs)"
  by (induction xs) auto

lemma mset_order_by: "mset (order_by le xs) = mset xs"
  by (induction xs) (auto simp add: order_by_def mset_insort_by)

lemma set_order_by: "set (order_by le xs) = set xs"
  by (induction xs) (auto simp add: order_by_def set_insort_by)

lemma sorted_wrt_insort_by:
  assumes total: "\<forall>a b. le a b \<or> le b a"
    and trans: "\<forall>a b c. le a b \<longrightarrow> le b c \<longrightarrow> le a c"
  shows "sorted_wrt le xs \<Longrightarrow> sorted_wrt le (insort_by le x xs)"
proof (induction xs)
  case Nil
  then show ?case by simp
next
  case (Cons y ys)
  show ?case
  proof (cases "le x y")
    case True
    from Cons.prems have "\<forall>z\<in>set ys. le y z" by simp
    with True trans have "\<forall>z\<in>set ys. le x z" by blast
    with True Cons.prems show ?thesis by simp
  next
    case False
    with total have "le y x" by blast
    with False Cons show ?thesis by (simp add: set_insort_by)
  qed
qed

lemma sorted_wrt_order_by:
  assumes "\<forall>a b. le a b \<or> le b a" "\<forall>a b c. le a b \<longrightarrow> le b c \<longrightarrow> le a c"
  shows "sorted_wrt le (order_by le xs)"
proof (induction xs)
  case Nil
  then show ?case by (simp add: order_by_def)
next
  case (Cons x xs)
  then have "sorted_wrt le (insort_by le x (order_by le xs))"
    by (rule sorted_wrt_insort_by[OF assms])
  then show ?case by (simp add: order_by_def)
qed

lemma sorted_wrt_offset_limit:
  "sorted_wrt le xs \<Longrightarrow> sorted_wrt le (offset_limit offset limit xs)"
  by (simp add: offset_limit_def)

lemma set_offset_limit: "set (offset_limit offset limit xs) \<subseteq> set xs"
  unfolding offset_limit_def
  by (meson set_take_subset set_drop_subset subset_trans)

lemma sorted_date_created_desc: "sorted_wrt date_created_desc (order_by date_created_desc xs)"
  by (rule sorted_wrt_order_by) (auto simp add: date_created_desc_def)



lemma like_contains:
  "CHR ''%'' \<notin> set v \<Longrightarrow> CHR ''_'' \<notin> set v \<Longrightarrow>
   like collate col (CHR ''%'' # v @ ''%'') = contains collate col v"
  by (simp add: like_def contains_def sql_like_contains split: option.splits)

lemma like_exact:
  "CHR ''%'' \<notin> set v \<Longrightarrow> CHR ''_'' \<notin> set v \<Longrightarrow> like collate col v = equals collate col v"
  by (simp add: like_def equals_def sql_like_exact split: option.splits)










section \<open>Properties of the customer queries\<close>

text \<open>
  C5. The claim: soft-deleted accounts and customers never appear in list, search or
  sort results, and get by id on a soft-deleted id is \<^verbatim>\<open>NotFound\<close>.
  \<^verbatim>\<open>get_customer_by_id\<close> filters on the short id alone and returns the deleted
  customer.
\<close>

theorem get_customer_by_id_deleted:
  "get_customer_by_id ''SHORT1'' [jane\<lparr>Customer.is_deleted := True\<rparr>]
     = Some (jane\<lparr>Customer.is_deleted := True\<rparr>)"
  by (simp add: get_customer_by_id_def jane_def)

text \<open>
  The list part of that claim holds: the three customer queries and the bank list
  return non-deleted rows of the organization only. For the bank get, the storage lookup
  as section 4.3 of the specification describes it is \<^verbatim>\<open>NotFound\<close> on an id whose rows
  are all deleted.
\<close>

lemma fetch_customers_not_deleted:
  "c \<in> set (fetch_customers org offset sz db) \<Longrightarrow>
   \<not> Customer.is_deleted c \<and> Customer.organization_id c = org \<and> c \<in> set db"
  using set_offset_limit[of offset sz "order_by date_created_desc
          (filter (\<lambda>c. Customer.is_deleted c = False)
             (filter (\<lambda>c. Customer.organization_id c = org) db))"]
  by (auto simp add: fetch_customers_def set_order_by)

lemma search_customers_not_deleted:
  "c \<in> set (search_customers collate org v offset sz db) \<Longrightarrow>
   \<not> Customer.is_deleted c \<and> Customer.organization_id c = org \<and> c \<in> set db"
  unfolding search_customers_def Let_def set_append
  by (auto dest!: subsetD[OF set_offset_limit] simp add: set_order_by)

lemma sort_customers_not_deleted:
  "sort_customers le org key offset sz dir db = Inr xs \<Longrightarrow> c \<in> set xs \<Longrightarrow>
   \<not> Customer.is_deleted c \<and> Customer.organization_id c = org \<and> c \<in> set db"
  unfolding sort_customers_def
  by (auto split: if_splits sum.splits option.splits dest!: subsetD[OF set_offset_limit]
        simp add: set_order_by)

lemma get_organization_bank_accounts_not_deleted:
  "get_organization_bank_accounts pg sz org user db = Inr p \<Longrightarrow> b \<in> set (items p) \<Longrightarrow>
   \<not> BankModels.is_deleted b \<and> BankModels.organisation_id b = org \<and> b \<in> set (banks db)"
  unfolding get_organization_bank_accounts_def paginate_def
  by (auto split: if_splits dest!: in_set_takeD in_set_dropD)

lemma get_single_bank_deleted:
  "\<forall>b\<in>set (banks db). BankModels.id' b = bank_id \<longrightarrow> BankModels.is_deleted b \<Longrightarrow>
   get_single_bank org bank_id user db = Inl NotFound"
proof -
  assume a: "\<forall>b\<in>set (banks db). BankModels.id' b = bank_id \<longrightarrow> BankModels.is_deleted b"
  have "first_index (\<lambda>b. BankModels.id' b = bank_id \<and> \<not> BankModels.is_deleted b) (banks db) = None"
  proof (cases "first_index (\<lambda>b. BankModels.id' b = bank_id \<and> \<not> BankModels.is_deleted b) (banks db)")
    case None
    then show ?thesis .
  next
    case (Some j)
    from first_index_Some[OF Some] a show ?thesis by (metis nth_mem)
  qed
  then show ?thesis by (simp add: get_single_bank_def fetch_bank_def)
qed

text \<open>
  C6, as claimed: the second sub-query is a partial match on the external unique id or
  the short id. Jane's unique id \<^verbatim>\<open>ABC123\<close> begins with \<^verbatim>\<open>ABC\<close>, she is a
  non-deleted customer of \<^verbatim>\<open>org1\<close>, and the search for \<^verbatim>\<open>ABC\<close> does not find
  her, be the collation binary or SQLite's.
\<close>

theorem search_customers_id_prefix:
  "Customer.unique_id jane = Some (''ABC'' @ ''123'')
   \<and> Customer.organization_id jane = ''org1'' \<and> \<not> Customer.is_deleted jane
   \<and> search_customers (\<lambda>c. c) ''org1'' ''ABC'' 0 50 [jane] = []
   \<and> search_customers ascii_lower ''org1'' ''ABC'' 0 50 [jane] = []"
  by (simp add: search_customers_def Let_def jane_def like_def offset_limit_def order_by_def
        ascii_lower_def)

text \<open>
  C6, amended. For every collation of the engine, organization, offset, limit and search
  text without the wildcards \<^verbatim>\<open>%\<close> and \<^verbatim>\<open>_\<close>, \<^verbatim>\<open>search_customers\<close> is the
  concatenation of two sub-queries, each the offset and limit cut of a list that holds
  exactly the matching non-deleted customers of that organization, the later created
  first: first the customers whose first or last name has a contiguous part equal to the
  text under the collation, then those whose external unique id or short id is as a
  whole equal to the text under the collation (character by character the same: exactly
  for a binary collation, up to the case of ASCII letters for SQLite).
\<close>

theorem search_customers_matches:
  assumes wf: "CHR ''%'' \<notin> set v" "CHR ''_'' \<notin> set v"
  shows "\<exists>by_name by_id.
       search_customers collate org v offset sz db
         = offset_limit offset sz by_name @ offset_limit offset sz by_id
     \<and> mset by_name = mset (filter (\<lambda>c. Customer.organization_id c = org
           \<and> \<not> Customer.is_deleted c
           \<and> (contains collate (Customer.first_name c) v
                \<or> contains collate (Customer.last_name c) v)) db)
     \<and> mset by_id = mset (filter (\<lambda>c. Customer.organization_id c = org
           \<and> \<not> Customer.is_deleted c
           \<and> (equals collate (Customer.unique_id c) v
                \<or> equals collate (Some (Customer.customer_id c)) v)) db)
     \<and> sorted_wrt (\<lambda>a b. Customer.date_created b \<le> Customer.date_created a) by_name
     \<and> sorted_wrt (\<lambda>a b. Customer.date_created b \<le> Customer.date_created a) by_id"
proof -
  let ?names = "filter (\<lambda>c. Customer.organization_id c = org \<and> \<not> Customer.is_deleted c
           \<and> (contains collate (Customer.first_name c) v
                \<or> contains collate (Customer.last_name c) v)) db"
  let ?ids = "filter (\<lambda>c. Customer.organization_id c = org \<and> \<not> Customer.is_deleted c
           \<and> (equals collate (Customer.unique_id c) v
                \<or> equals collate (Some (Customer.customer_id c)) v)) db"
  have f: "filter P (filter Q db) = filter (\<lambda>c. Q c \<and> P c) db" for P Q :: "Customer \<Rightarrow> bool"
    by (simp add: conj_commute)
  have res: "search_customers collate org v offset sz db =
      offset_limit offset sz (order_by date_created_desc ?names)
    @ offset_limit offset sz (order_by date_created_desc ?ids)"
    unfolding search_customers_def Let_def f
    by (simp add: like_contains[OF wf] like_exact[OF wf] conj_assoc)
  have s: "sorted_wrt (\<lambda>a b. Customer.date_created b \<le> Customer.date_created a)
             (order_by date_created_desc xs)" for xs
    using sorted_date_created_desc[of xs] by (simp add: date_created_desc_def[abs_def])
  from res s[of ?names] s[of ?ids] mset_order_by[of date_created_desc ?names]
    mset_order_by[of date_created_desc ?ids]
  show ?thesis by blast
qed

theorem search_customers_matches_witness:
  "CHR ''%'' \<notin> set ''jan'' \<and> CHR ''_'' \<notin> set ''jan''
   \<and> (\<exists>by_name by_id.
       search_customers ascii_lower ''org1'' ''jan'' 0 50 [jane, jan_smith, janet]
         = offset_limit 0 50 by_name @ offset_limit 0 50 by_id
     \<and> mset by_name = mset (filter (\<lambda>c. Customer.organization_id c = ''org1''
           \<and> \<not> Customer.is_deleted c
           \<and> (contains ascii_lower (Customer.first_name c) ''jan''
                \<or> contains ascii_lower (Customer.last_name c) ''jan'')) [jane, jan_smith, janet])
     \<and> mset by_id = mset (filter (\<lambda>c. Customer.organization_id c = ''org1''
           \<and> \<not> Customer.is_deleted c
           \<and> (equals ascii_lower (Customer.unique_id c) ''jan''
                \<or> equals ascii_lower (Some (Customer.customer_id c)) ''jan''))
           [jane, jan_smith, janet])
     \<and> sorted_wrt (\<lambda>a b. Customer.date_created b \<le> Customer.date_created a) by_name
     \<and> sorted_wrt (\<lambda>a b. Customer.date_created b \<le> Customer.date_created a) by_id)
   \<and> search_customers ascii_lower ''org1'' ''jan'' 0 50 [jane, jan_smith, janet]
       = [janet, jane, janet]
   \<and> search_customers (\<lambda>c. c) ''org1'' ''Jan'' 0 50 [jane, jan_smith, janet] = [janet, jane]
   \<and> search_customers (\<lambda>c. c) ''org1'' ''Jan'' 0 50 [jane, jan_smith] = [jane]"
proof -
  have h1: "CHR ''%'' \<notin> set ''jan''" by simp
  have h2: "CHR ''_'' \<notin> set ''jan''" by simp
  have r1: "search_customers ascii_lower ''org1'' ''jan'' 0 50 [jane, jan_smith, janet]
       = [janet, jane, janet]"
    by (simp add: search_customers_def Let_def jane_def jan_smith_def janet_def like_def
          offset_limit_def order_by_def ascii_lower_def date_created_desc_def)
  have r2: "search_customers (\<lambda>c. c) ''org1'' ''Jan'' 0 50 [jane, jan_smith, janet]
       = [janet, jane]"
    by (simp add: search_customers_def Let_def jane_def jan_smith_def janet_def like_def
          offset_limit_def order_by_def date_created_desc_def)
  have r3: "search_customers (\<lambda>c. c) ''org1'' ''Jan'' 0 50 [jane, jan_smith] = [jane]"
    by (simp add: search_customers_def Let_def jane_def jan_smith_def like_def
          offset_limit_def order_by_def date_created_desc_def)
  from search_customers_matches
    [OF h1 h2, of ascii_lower "''org1''" 0 50 "[jane, jan_smith, janet]"] h1 h2 r1 r2 r3
  show ?thesis by blast
qed




end
